theory Spec2Isabelle
  imports Complex_Main
begin

section \<open>Values of the JavaScript runtime\<close>

text \<open>
  The client is JavaScript. The values that cross the network and the storage boundary are
  JSON values; numbers are IEEE doubles, of which only the order matters here, so a finite
  double is represented by the rational it denotes, next to the two infinities and NaN.
\<close>

datatype jsnum = NaN | NegInf | Fin rat | PosInf

datatype json =
    JNull
  | JBool bool
  | JNum jsnum
  | JStr string
  | JArr "json list"
  | JObj "(string \<times> json) list"

text \<open>What a \<^verbatim>\<open>throw\<close> carries: an \<^verbatim>\<open>Error\<close> with its message, or one of the
  platform's own exceptions.\<close>

datatype exn = Error string | TypeError | SyntaxError | FetchFailed | AbortError

text \<open>An asynchronous operation returns, throws, or never settles.\<close>

datatype 'a outcome = Returned 'a | Threw exn | Hangs

text \<open>The comparison \<^verbatim>\<open>x < y\<close> on numbers: false as soon as one side is NaN.\<close>

fun js_lt :: "jsnum \<Rightarrow> jsnum \<Rightarrow> bool" where
  "js_lt NaN _ = False"
| "js_lt _ NaN = False"
| "js_lt NegInf NegInf = False"
| "js_lt NegInf _ = True"
| "js_lt (Fin a) (Fin b) = (a < b)"
| "js_lt (Fin a) PosInf = True"
| "js_lt (Fin a) NegInf = False"
| "js_lt PosInf _ = False"

text \<open>
  The parts of the platform that are not this repository's code and are too large to write
  out are parameters: \<^verbatim>\<open>JSON.parse\<close> (\<open>None\<close> when it throws SyntaxError),
  \<^verbatim>\<open>JSON.stringify\<close> on a JSON value, the conversion to a number of a string, array or object, and
  the conversion to a string of a value that is not a string.
\<close>

record runtime =
  JSON_parse :: "string \<Rightarrow> json option"
  JSON_stringify :: "json \<Rightarrow> string"
  ToNumber_other :: "json \<Rightarrow> jsnum"
  ToString_other :: "json \<Rightarrow> string"

text \<open>Property access \<^verbatim>\<open>v.k\<close>: TypeError on \<^verbatim>\<open>null\<close> (the outer \<open>None\<close>),
  \<^verbatim>\<open>undefined\<close> (the inner \<open>None\<close>) when the value has no such property. It is used
  with the names \<open>exp\<close>, \<open>token\<close>, \<open>user\<close>, \<open>error\<close>, \<open>chatId\<close> and \<open>id\<close>, which no
  prototype defines, so that only an object can have them; an object lists each of its
  keys once, as \<^verbatim>\<open>JSON.parse\<close> leaves it.\<close>

fun get_prop :: "json \<Rightarrow> string \<Rightarrow> json option option" where
  "get_prop JNull k = None"
| "get_prop (JObj kvs) k = Some (map_of kvs k)"
| "get_prop _ k = Some None"

text \<open>ToNumber, as \<^verbatim>\<open><\<close> applies it to an operand when the other one is a number.\<close>

fun ToNumber :: "runtime \<Rightarrow> json option \<Rightarrow> jsnum" where
  "ToNumber R None = NaN"
| "ToNumber R (Some JNull) = Fin 0"
| "ToNumber R (Some (JBool b)) = Fin (if b then 1 else 0)"
| "ToNumber R (Some (JNum n)) = n"
| "ToNumber R (Some v) = ToNumber_other R v"

text \<open>Truthiness of a JSON value and of a value that may be \<^verbatim>\<open>undefined\<close>.\<close>

fun truthy :: "json \<Rightarrow> bool" where
  "truthy JNull = False"
| "truthy (JBool b) = b"
| "truthy (JNum n) = (n \<noteq> NaN \<and> n \<noteq> Fin 0)"
| "truthy (JStr s) = (s \<noteq> [])"
| "truthy _ = True"

fun truthy_opt :: "json option \<Rightarrow> bool" where
  "truthy_opt None = False"
| "truthy_opt (Some v) = truthy v"

fun ToString :: "runtime \<Rightarrow> json \<Rightarrow> string" where
  "ToString R (JStr s) = s"
| "ToString R v = ToString_other R v"

section \<open>atob and the payload segment of a token\<close>

text \<open>
  \<^verbatim>\<open>atob\<close> is the forgiving-base64 decode of the HTML standard: ASCII whitespace is
  dropped, one or two closing \<^verbatim>\<open>=\<close> are dropped when the length is a multiple of four,
  a length of 1 modulo 4 or a character outside the alphabet fails (\<open>None\<close>), and the
  sextets are regrouped into bytes.
\<close>

definition is_ascii_whitespace :: "char \<Rightarrow> bool" where
  "is_ascii_whitespace c = (c \<in> set [CHR 0x09, CHR 0x0A, CHR 0x0C, CHR 0x0D, CHR 0x20])"

definition b64_index :: "char \<Rightarrow> nat option" where
  "b64_index c =
     (let n = (of_char c :: nat) in
      if 65 \<le> n \<and> n \<le> 90 then Some (n - 65)
      else if 97 \<le> n \<and> n \<le> 122 then Some (n - 71)
      else if 48 \<le> n \<and> n \<le> 57 then Some (n + 4)
      else if n = 43 then Some 62
      else if n = 47 then Some 63
      else None)"

definition strip_padding :: "string \<Rightarrow> string" where
  "strip_padding s =
     (if length s mod 4 = 0 \<and> s \<noteq> [] \<and> last s = CHR ''=''
      then (if butlast s \<noteq> [] \<and> last (butlast s) = CHR ''='' then butlast (butlast s)
            else butlast s)
      else s)"

fun sextets_to_bytes :: "nat list \<Rightarrow> nat list" where
  "sextets_to_bytes (a # b # c # d # rest) =
     (a * 4 + b div 16) # ((b mod 16) * 16 + c div 4) # ((c mod 4) * 64 + d)
       # sextets_to_bytes rest"
| "sextets_to_bytes [a, b, c] = [a * 4 + b div 16, (b mod 16) * 16 + c div 4]"
| "sextets_to_bytes [a, b] = [a * 4 + b div 16]"
| "sextets_to_bytes _ = []"

fun all_some :: "'a option list \<Rightarrow> 'a list option" where
  "all_some [] = Some []"
| "all_some (None # xs) = None"
| "all_some (Some x # xs) = (case all_some xs of None \<Rightarrow> None | Some ys \<Rightarrow> Some (x # ys))"

definition atob :: "string \<Rightarrow> string option" where
  "atob s =
     (let d = strip_padding (filter (\<lambda>c. \<not> is_ascii_whitespace c) s) in
      if length d mod 4 = 1 then None
      else (case all_some (map b64_index d) of
              None \<Rightarrow> None
            | Some ns \<Rightarrow> Some (map char_of (sextets_to_bytes ns))))"

text \<open>\<^verbatim>\<open>token.split('.')\<close>: the pieces between the dots, never an empty list.\<close>

fun split_dot :: "string \<Rightarrow> string list" where
  "split_dot [] = [[]]"
| "split_dot (c # cs) =
     (if c = CHR ''.'' then [] # split_dot cs
      else (case split_dot cs of [] \<Rightarrow> [[c]] | w # ws \<Rightarrow> (c # w) # ws))"

text \<open>\<^verbatim>\<open>token.split('.')[1]\<close> handed to \<^verbatim>\<open>atob\<close>: a token without a dot gives
  \<^verbatim>\<open>undefined\<close>, which \<^verbatim>\<open>atob\<close> reads as the string "undefined".\<close>

definition payload_segment :: "string \<Rightarrow> string" where
  "payload_segment token =
     (case split_dot token of _ # seg # _ \<Rightarrow> seg | _ \<Rightarrow> ''undefined'')"

text \<open>\<^verbatim>\<open>JSON.parse(atob(token.split('.')[1]))\<close>; \<open>None\<close> when either call throws.\<close>

definition decode_payload :: "runtime \<Rightarrow> string \<Rightarrow> json option" where
  "decode_payload R token =
     (case atob (payload_segment token) of
        None \<Rightarrow> None
      | Some txt \<Rightarrow> JSON_parse R txt)"

section \<open>Durable storage\<close>

text \<open>\<^verbatim>\<open>localStorage\<close>: a map from keys to strings; \<^verbatim>\<open>getItem\<close> of a missing key is
  \<^verbatim>\<open>null\<close>, here \<open>None\<close>. The two keys of the stored credential are \<open>''authToken''\<close>
  and \<open>''user''\<close>.\<close>

type_synonym storage = "string \<rightharpoonup> string"

definition getItem :: "storage \<Rightarrow> string \<Rightarrow> string option" where
  "getItem ls k = ls k"

definition setItem :: "storage \<Rightarrow> string \<Rightarrow> string \<Rightarrow> storage" where
  "setItem ls k v = ls(k \<mapsto> v)"

definition removeItem :: "storage \<Rightarrow> string \<Rightarrow> storage" where
  "removeItem ls k = ls(k := None)"

text \<open>\<^verbatim>\<open>!token\<close> on what \<^verbatim>\<open>getItem\<close> returned: \<^verbatim>\<open>null\<close> and the empty string are falsy.\<close>

definition falsy_str :: "string option \<Rightarrow> bool" where
  "falsy_str t = (case t of None \<Rightarrow> True | Some s \<Rightarrow> s = [])"

section \<open>auth-service.js\<close>

definition logoutUser :: "storage \<Rightarrow> storage" where
  "logoutUser ls = removeItem (removeItem ls ''authToken'') ''user''"

definition getAuthToken :: "storage \<Rightarrow> string option" where
  "getAuthToken ls = getItem ls ''authToken''"

text \<open>\<^verbatim>\<open>isAuthenticated\<close>, with \<open>currentTime\<close> the value of \<^verbatim>\<open>Date.now() / 1000\<close>.
  It returns its boolean and the storage it leaves.\<close>

definition isAuthenticated :: "runtime \<Rightarrow> rat \<Rightarrow> storage \<Rightarrow> bool \<times> storage" where
  "isAuthenticated R currentTime ls =
     (case getItem ls ''authToken'' of
        None \<Rightarrow> (False, ls)
      | Some token \<Rightarrow>
          if token = [] then (False, ls)
          else
            (case decode_payload R token of
               None \<Rightarrow> (False, removeItem (removeItem ls ''authToken'') ''user'')
             | Some payload \<Rightarrow>
                 (case get_prop payload ''exp'' of
                    None \<Rightarrow> (False, removeItem (removeItem ls ''authToken'') ''user'')
                  | Some e \<Rightarrow>
                      if js_lt (ToNumber R e) (Fin currentTime)
                      then (False, removeItem (removeItem ls ''authToken'') ''user'')
                      else (True, ls))))"

section \<open>The network\<close>

text \<open>
  A response carries its status and what \<^verbatim>\<open>response.json()\<close> gives (\<open>None\<close> when the
  body is not JSON and the call rejects with SyntaxError); \<^verbatim>\<open>response.ok\<close> is a status
  from 200 to 299. What a \<^verbatim>\<open>fetch\<close> does is given from outside: it settles after some
  milliseconds with a response or a network error, or it never settles.
\<close>

datatype response = Response (status: nat) (json_body: "json option")

definition ok :: "response \<Rightarrow> bool" where
  "ok r = (200 \<le> status r \<and> status r \<le> 299)"

datatype settled = Resp response | NetworkError

datatype net = Settles nat settled | Never

text \<open>\<^verbatim>\<open>await fetch(url, options)\<close> with no abort signal.\<close>

fun fetch :: "net \<Rightarrow> response outcome" where
  "fetch (Settles t (Resp r)) = Returned r"
| "fetch (Settles t NetworkError) = Threw FetchFailed"
| "fetch Never = Hangs"

text \<open>\<^verbatim>\<open>await response.json()\<close>.\<close>

definition json_of :: "response \<Rightarrow> json outcome" where
  "json_of r = (case json_body r of None \<Rightarrow> Threw SyntaxError | Some v \<Rightarrow> Returned v)"

section \<open>auth-service.js: the requests\<close>

text \<open>\<^verbatim>\<open>new Error(error.error || fallback)\<close> on the parsed error body.\<close>

definition error_of_body :: "runtime \<Rightarrow> json \<Rightarrow> string \<Rightarrow> exn" where
  "error_of_body R err fallback =
     (case get_prop err ''error'' of
        None \<Rightarrow> TypeError
      | Some None \<Rightarrow> Error fallback
      | Some (Some m) \<Rightarrow> (if truthy m then Error (ToString R m) else Error fallback))"

text \<open>What \<^verbatim>\<open>setItem('user', JSON.stringify(data.user))\<close> stores:
  \<^verbatim>\<open>JSON.stringify(undefined)\<close> is \<^verbatim>\<open>undefined\<close>, stored as the string "undefined".\<close>

definition stringify_stored :: "runtime \<Rightarrow> json option \<Rightarrow> string" where
  "stringify_stored R u = (case u of None \<Rightarrow> ''undefined'' | Some v \<Rightarrow> JSON_stringify R v)"

text \<open>The store of token and user shared by \<^verbatim>\<open>registerUser\<close> and \<^verbatim>\<open>loginUser\<close>:
  \<^verbatim>\<open>if (data.token) { setItem('authToken', data.token); setItem('user',
  JSON.stringify(data.user)) } return data\<close>, statement by statement; \<^verbatim>\<open>setItem\<close> stores the
  string of its argument.\<close>

definition store_credential :: "runtime \<Rightarrow> json \<Rightarrow> storage \<Rightarrow> json outcome \<times> storage" where
  "store_credential R data ls =
     (case get_prop data ''token'' of
        None \<Rightarrow> (Threw TypeError, ls)
      | Some None \<Rightarrow> (Returned data, ls)
      | Some (Some tok) \<Rightarrow>
          if truthy tok
          then (let ls1 = setItem ls ''authToken'' (ToString R tok) in
                case get_prop data ''user'' of
                  None \<Rightarrow> (Threw TypeError, ls1)
                | Some u \<Rightarrow> (Returned data, setItem ls1 ''user'' (stringify_stored R u)))
          else (Returned data, ls))"

definition auth_request :: "runtime \<Rightarrow> string \<Rightarrow> net \<Rightarrow> storage \<Rightarrow> json outcome \<times> storage" where
  "auth_request R fallback n ls =
     (case fetch n of
        Hangs \<Rightarrow> (Hangs, ls)
      | Threw e \<Rightarrow> (Threw e, ls)
      | Returned resp \<Rightarrow>
          if \<not> ok resp
          then (case json_of resp of
                  Returned err \<Rightarrow> (Threw (error_of_body R err fallback), ls)
                | Threw e \<Rightarrow> (Threw e, ls)
                | Hangs \<Rightarrow> (Hangs, ls))
          else (case json_of resp of
                  Returned data \<Rightarrow> store_credential R data ls
                | Threw e \<Rightarrow> (Threw e, ls)
                | Hangs \<Rightarrow> (Hangs, ls)))"

text \<open>\<^verbatim>\<open>registerUser(email, password, username)\<close> and \<^verbatim>\<open>loginUser(email, password)\<close>:
  the arguments only go into the request body, whose effect is the given behaviour of the
  network; the two functions differ in the URL and in the fallback message.\<close>

definition registerUser :: "runtime \<Rightarrow> string \<Rightarrow> string \<Rightarrow> string \<Rightarrow> net \<Rightarrow> storage
    \<Rightarrow> json outcome \<times> storage" where
  "registerUser R email password username n ls = auth_request R ''Registration failed'' n ls"

definition loginUser :: "runtime \<Rightarrow> string \<Rightarrow> string \<Rightarrow> net \<Rightarrow> storage
    \<Rightarrow> json outcome \<times> storage" where
  "loginUser R email password n ls = auth_request R ''Login failed'' n ls"

definition getUserProfile :: "net \<Rightarrow> storage \<Rightarrow> json outcome \<times> storage" where
  "getUserProfile n ls =
     (if falsy_str (getItem ls ''authToken'') then (Threw (Error ''No authentication token''), ls)
      else
        (case fetch n of
           Hangs \<Rightarrow> (Hangs, ls)
         | Threw e \<Rightarrow> (Threw e, ls)
         | Returned resp \<Rightarrow>
             if \<not> ok resp
             then (if status resp = 401
                   then (Threw (Error ''Session expired''),
                         removeItem (removeItem ls ''authToken'') ''user'')
                   else (Threw (Error ''Failed to fetch profile''), ls))
             else (json_of resp, ls)))"

text \<open>\<^verbatim>\<open>getStoredUser\<close>: \<open>None\<close> when \<^verbatim>\<open>JSON.parse\<close> throws, \<^verbatim>\<open>null\<close> when nothing
  truthy is stored.\<close>

definition getStoredUser :: "runtime \<Rightarrow> storage \<Rightarrow> json option" where
  "getStoredUser R ls =
     (case getItem ls ''user'' of
        None \<Rightarrow> Some JNull
      | Some u \<Rightarrow> if u = [] then Some JNull else JSON_parse R u)"

section \<open>AuthContext.jsx\<close>

text \<open>The state of the provider: \<^verbatim>\<open>user\<close> (\<^verbatim>\<open>null\<close> is \<open>JNull\<close>) and \<^verbatim>\<open>loading\<close>; the
  derived \<^verbatim>\<open>isAuthenticated\<close> of the context is \<^verbatim>\<open>!!user\<close>.\<close>

record auth_state =
  user :: json
  loading :: bool

definition initial_auth_state :: auth_state where
  "initial_auth_state = \<lparr>user = JNull, loading = True\<rparr>"

definition context_isAuthenticated :: "auth_state \<Rightarrow> bool" where
  "context_isAuthenticated st = truthy (user st)"

definition logout :: "storage \<times> auth_state \<Rightarrow> storage \<times> auth_state" where
  "logout s = (logoutUser (fst s), (snd s)\<lparr>user := JNull\<rparr>)"

text \<open>An asynchronous handler runs to its end, or stays suspended at an \<^verbatim>\<open>await\<close>
  that never settles, or has queued a state updater that throws when React runs it, which
  takes the component tree down, or has put a value that is not an array into a state cell
  that holds a list, which the records below cannot hold.\<close>

datatype completion = Completed | Suspended | RenderError | NotAList

text \<open>\<^verbatim>\<open>initializeAuth\<close>, run once on mount, with the behaviour of the network for the
  profile request. The inner catch calls \<open>logout\<close>; the outer catch only logs; the
  \<^verbatim>\<open>finally\<close> block clears \<open>loading\<close> on every path that ends.\<close>

definition initializeAuth :: "runtime \<Rightarrow> rat \<Rightarrow> net \<Rightarrow> storage \<times> auth_state
    \<Rightarrow> completion \<times> storage \<times> auth_state" where
  "initializeAuth R currentTime n s =
     (let (ls, st) = s; (authed, ls1) = isAuthenticated R currentTime ls in
      if authed
      then (case getStoredUser R ls1 of
              None \<Rightarrow> (Completed, ls1, st\<lparr>loading := False\<rparr>)
            | Some storedUser \<Rightarrow>
                if truthy storedUser
                then (let st1 = st\<lparr>user := storedUser\<rparr> in
                      case getUserProfile n ls1 of
                        (Returned profile, ls2) \<Rightarrow>
                          (Completed, ls2, st1\<lparr>user := profile, loading := False\<rparr>)
                      | (Threw e, ls2) \<Rightarrow>
                          (let (ls3, st3) = logout (ls2, st1)
                           in (Completed, ls3, st3\<lparr>loading := False\<rparr>))
                      | (Hangs, ls2) \<Rightarrow> (Suspended, ls2, st1))
                else (Completed, ls1, st\<lparr>loading := False\<rparr>))
      else (Completed, ls1, st\<lparr>loading := False\<rparr>))"

section \<open>Sequences of credential operations\<close>

text \<open>The operations of auth-service.js that touch the storage, with what each one needs
  from outside, and their effect on the storage when run one after the other.\<close>

datatype auth_op =
    Register string string string net
  | Login string string net
  | Logout
  | CheckAuthenticated rat
  | Profile net

fun run_op :: "runtime \<Rightarrow> auth_op \<Rightarrow> storage \<Rightarrow> storage" where
  "run_op R (Register email password username n) ls =
     snd (registerUser R email password username n ls)"
| "run_op R (Login email password n) ls = snd (loginUser R email password n ls)"
| "run_op R Logout ls = logoutUser ls"
| "run_op R (CheckAuthenticated t) ls = snd (isAuthenticated R t ls)"
| "run_op R (Profile n) ls = snd (getUserProfile n ls)"

fun run_ops :: "runtime \<Rightarrow> auth_op list \<Rightarrow> storage \<Rightarrow> storage" where
  "run_ops R [] ls = ls"
| "run_ops R (op # ops) ls = run_ops R ops (run_op R op ls)"

text \<open>Both keys of the credential are present, or neither is.\<close>

definition paired :: "storage \<Rightarrow> bool" where
  "paired ls = ((ls ''authToken'' = None) = (ls ''user'' = None))"

text \<open>One step on the credential pair: nothing changes, both keys are written, or both
  keys are removed; every other key keeps its value.\<close>

definition credential_step :: "storage \<Rightarrow> storage \<Rightarrow> bool" where
  "credential_step ls ls' =
     (ls' = ls
      \<or> (\<exists>t u. ls' = ls(''authToken'' \<mapsto> t, ''user'' \<mapsto> u))
      \<or> ls' = ls(''authToken'' := None, ''user'' := None))"

section \<open>news-api.js\<close>

text \<open>
  \<^verbatim>\<open>setTimeout(() => controller.abort(), timeoutMs)\<close>: the callback runs, and aborts the
  request, unless \<^verbatim>\<open>clearTimeout\<close> comes first, that is unless the fetch has settled
  within \<open>timeoutMs\<close> milliseconds. (Which of the two wins when both fall on the same
  millisecond is up to the event loop; here the fetch does.)
\<close>

definition abort_called :: "net \<Rightarrow> nat \<Rightarrow> bool" where
  "abort_called n timeoutMs = (case n of Never \<Rightarrow> True | Settles t r \<Rightarrow> timeoutMs < t)"

text \<open>\<^verbatim>\<open>fetch\<close> with the signal of that controller: it rejects with AbortError once
  \<^verbatim>\<open>abort\<close> has been called.\<close>

definition fetch_abortable :: "net \<Rightarrow> nat \<Rightarrow> response outcome" where
  "fetch_abortable n timeoutMs =
     (if abort_called n timeoutMs then Threw AbortError else fetch n)"

text \<open>\<^verbatim>\<open>fetchWithTimeout(url, options = {}, timeoutMs = 30000)\<close>; the argument is \<open>None\<close>
  where the caller leaves it out. Next to its outcome it gives whether its timer aborted
  the request.\<close>

definition fetchWithTimeout :: "net \<Rightarrow> nat option \<Rightarrow> response outcome \<times> bool" where
  "fetchWithTimeout n timeoutArg =
     (let timeoutMs = (case timeoutArg of None \<Rightarrow> 30000 | Some ms \<Rightarrow> ms) in
      (case fetch_abortable n timeoutMs of
         Returned resp \<Rightarrow> Returned resp
       | Threw e \<Rightarrow>
           if e = AbortError then Threw (Error ''Request timed out. Please try again.'')
           else Threw e
       | Hangs \<Rightarrow> Hangs,
       abort_called n timeoutMs))"

text \<open>The body shared by the six functions of news-api.js, which differ in URL, method,
  timeout argument and failure message; the second component is passed on from
  \<open>fetchWithTimeout\<close>.\<close>

definition news_request :: "string \<Rightarrow> nat option \<Rightarrow> net \<Rightarrow> json outcome \<times> bool" where
  "news_request failure timeoutArg n =
     (case fetchWithTimeout n timeoutArg of
        (Returned resp, aborted) \<Rightarrow>
          (if \<not> ok resp then Threw (Error failure) else json_of resp, aborted)
      | (Threw e, aborted) \<Rightarrow> (Threw e, aborted)
      | (Hangs, aborted) \<Rightarrow> (Hangs, aborted))"


definition getUserPreferences :: "net \<Rightarrow> json outcome \<times> bool" where
  "getUserPreferences n = news_request ''Failed to fetch user preferences'' None n"

definition updateUserPreferences :: "json \<Rightarrow> net \<Rightarrow> json outcome \<times> bool" where
  "updateUserPreferences preferences n =
     news_request ''Failed to update user preferences'' None n"

definition addMonitoringTopic :: "string \<Rightarrow> net \<Rightarrow> json outcome \<times> bool" where
  "addMonitoringTopic topic n = news_request ''Failed to add monitoring topic'' None n"

definition removeMonitoringTopic :: "string \<Rightarrow> net \<Rightarrow> json outcome \<times> bool" where
  "removeMonitoringTopic topic n = news_request ''Failed to remove monitoring topic'' None n"

definition getUrgentNews :: "net \<Rightarrow> json outcome \<times> bool" where
  "getUrgentNews n = news_request ''Failed to fetch urgent news'' (Some 35000) n"

section \<open>NewsFeed.jsx\<close>






section \<open>MainChatArea-api.js\<close>

text \<open>The body shared by the five functions of MainChatArea-api.js: a plain
  \<^verbatim>\<open>fetch\<close>, the failure message on a response that is not ok, else the parsed body.\<close>

definition chat_request :: "string \<Rightarrow> net \<Rightarrow> json outcome" where
  "chat_request failure n =
     (case fetch n of
        Returned resp \<Rightarrow> if \<not> ok resp then Threw (Error failure) else json_of resp
      | Threw e \<Rightarrow> Threw e
      | Hangs \<Rightarrow> Hangs)"

definition getAIMemory :: "net \<Rightarrow> json outcome" where
  "getAIMemory n = chat_request ''Failed to fetch AI memory'' n"

definition createNewChat :: "string \<Rightarrow> net \<Rightarrow> json outcome" where
  "createNewChat title n = chat_request ''Failed to create new chat'' n"

definition getAllChats :: "net \<Rightarrow> json outcome" where
  "getAllChats n = chat_request ''Failed to fetch chats'' n"

definition getChatById :: "json option \<Rightarrow> net \<Rightarrow> json outcome" where
  "getChatById chatId n = chat_request ''Failed to fetch chat'' n"

definition saveMessage :: "json option \<Rightarrow> string \<Rightarrow> net \<Rightarrow> json outcome" where
  "saveMessage chatId content n = chat_request ''Failed to save message or get AI response'' n"

section \<open>AIModal.jsx\<close>

text \<open>\<^verbatim>\<open>a === b\<close> on values that are JSON or \<^verbatim>\<open>undefined\<close> (\<open>None\<close>): primitives by
  value; arrays and objects by identity, and the ones compared here come out of different
  responses, so they are never identical.\<close>

fun strict_eq :: "json option \<Rightarrow> json option \<Rightarrow> bool" where
  "strict_eq None None = True"
| "strict_eq (Some JNull) (Some JNull) = True"
| "strict_eq (Some (JBool a)) (Some (JBool b)) = (a = b)"
| "strict_eq (Some (JNum a)) (Some (JNum b)) = (a = b \<and> a \<noteq> NaN)"
| "strict_eq (Some (JStr a)) (Some (JStr b)) = (a = b)"
| "strict_eq _ _ = False"

text \<open>\<^verbatim>\<open>xs.filter(x => x.k !== v)\<close>; \<open>None\<close> when \<^verbatim>\<open>x.k\<close> throws on an element.\<close>

fun filter_prop_ne :: "string \<Rightarrow> json option \<Rightarrow> json list \<Rightarrow> json list option" where
  "filter_prop_ne k v [] = Some []"
| "filter_prop_ne k v (x # xs) =
     (case get_prop x k of
        None \<Rightarrow> None
      | Some w \<Rightarrow>
          (case filter_prop_ne k v xs of
             None \<Rightarrow> None
           | Some ys \<Rightarrow> Some (if \<not> strict_eq w v then x # ys else ys)))"

text \<open>The state cells of the modal that sending a message writes; \<open>currentChatId\<close> is
  \<open>None\<close> for \<^verbatim>\<open>null\<close> and \<^verbatim>\<open>undefined\<close>, \<open>loading_messages\<close> and \<open>loading_memory\<close>
  are \<^verbatim>\<open>loading.messages\<close> and \<^verbatim>\<open>loading.memory\<close>. The modal is rendered with React's
  batching of state updates: the updates of one turn of the event loop are applied together
  and the effects of that render run after them.\<close>

record modal_state =
  activeView :: string
  chats :: "json list"
  currentChatId :: "json option"
  messages :: "json list"
  loading_messages :: bool
  loading_memory :: bool
  isNewChat :: bool


text \<open>\<^verbatim>\<open>handleCreateNewChat\<close>: its completion, the chat id it returns (\<open>None\<close> for
  \<^verbatim>\<open>null\<close>), and the state. A \<^verbatim>\<open>null\<close> response makes \<^verbatim>\<open>newChat.chatId\<close> throw into
  the catch block, and the updater already queued for \<open>chats\<close> throws when React runs it,
  as it does when an element of the previous list is \<^verbatim>\<open>null\<close>.\<close>

definition handleCreateNewChat :: "net \<Rightarrow> modal_state \<Rightarrow> completion \<times> json option \<times> modal_state" where
  "handleCreateNewChat n st =
     (let st1 = st\<lparr>loading_messages := True\<rparr> in
      case createNewChat ''New Chat'' n of
        Hangs \<Rightarrow> (Suspended, None, st1)
      | Threw e \<Rightarrow> (Completed, None, st1\<lparr>loading_messages := False\<rparr>)
      | Returned newChat \<Rightarrow>
          (case get_prop newChat ''chatId'' of
             None \<Rightarrow> (RenderError, None, st1\<lparr>loading_messages := False\<rparr>)
           | Some cid \<Rightarrow>
               (case filter_prop_ne ''chatId'' cid (chats st1) of
                  None \<Rightarrow>
                    (RenderError, cid,
                     st1\<lparr>currentChatId := cid, messages := [], isNewChat := True,
                         activeView := ''chat'', loading_messages := False\<rparr>)
                | Some others \<Rightarrow>
                    (Completed, cid,
                     st1\<lparr>chats := newChat # others, currentChatId := cid, messages := [],
                         isNewChat := True, activeView := ''chat'',
                         loading_messages := False\<rparr>))))"

text \<open>The optimistic message; its id is \<^verbatim>\<open>Date.now().toString()\<close> and its timestamp
  \<^verbatim>\<open>new Date().toISOString()\<close>, both read from the clock and given here.\<close>

definition userMessage :: "string \<Rightarrow> string \<Rightarrow> string \<Rightarrow> json" where
  "userMessage text msg_id timestamp =
     JObj [(''id'', JStr msg_id), (''content'', JStr text), (''role'', JStr ''user''),
           (''timestamp'', JStr timestamp), (''message_type'', JStr ''text'')]"

text \<open>The effect on \<^verbatim>\<open>[currentChatId, isOpen]\<close>, which runs after every render in which
  one of the two has changed. With a chat selected and the modal open it starts
  \<^verbatim>\<open>loadChat\<close>, which sets \<^verbatim>\<open>loading.messages\<close> and awaits \<open>getChatById\<close>; the boolean
  says whether it did.\<close>

definition chat_effect_begin :: "bool \<Rightarrow> modal_state \<Rightarrow> bool \<times> modal_state" where
  "chat_effect_begin isOpen st =
     (if truthy_opt (currentChatId st) \<and> isOpen
      then (True, st\<lparr>loading_messages := True\<rparr>)
      else (False, st\<lparr>messages := [], isNewChat := True\<rparr>))"

text \<open>\<^verbatim>\<open>loadChat\<close> from the point where \<open>getChatById\<close> has settled with the given
  outcome: \<^verbatim>\<open>setMessages(chat.messages || [])\<close>,
  \<^verbatim>\<open>setIsNewChat(chat.messages?.length === 0)\<close>, the catch block for a request that failed
  or a chat that is \<^verbatim>\<open>null\<close>, and the \<^verbatim>\<open>finally\<close> block. Of the falsy values of
  \<^verbatim>\<open>chat.messages\<close> only the empty string has length 0.\<close>

definition loadChat_settles :: "json outcome \<Rightarrow> modal_state \<Rightarrow> completion \<times> modal_state" where
  "loadChat_settles out st =
     (case out of
        Hangs \<Rightarrow> (Suspended, st)
      | Threw e \<Rightarrow>
          (Completed, st\<lparr>messages := [], isNewChat := True, loading_messages := False\<rparr>)
      | Returned chat \<Rightarrow>
          (case get_prop chat ''messages'' of
             None \<Rightarrow>
               (Completed, st\<lparr>messages := [], isNewChat := True, loading_messages := False\<rparr>)
           | Some m \<Rightarrow>
               if \<not> truthy_opt m
               then (Completed,
                     st\<lparr>messages := [], isNewChat := (m = Some (JStr [])),
                        loading_messages := False\<rparr>)
               else (case m of
                       Some (JArr loaded) \<Rightarrow>
                         (Completed,
                          st\<lparr>messages := loaded, isNewChat := (loaded = []),
                             loading_messages := False\<rparr>)
                     | _ \<Rightarrow> (NotAList, st))))"

text \<open>\<^verbatim>\<open>handleSendMessage\<close> from the point where \<open>saveMessage\<close> has settled with the
  given outcome. After a truthy reply it calls \<^verbatim>\<open>loadAIMemory\<close> without awaiting it, which
  sets \<^verbatim>\<open>loading.memory\<close> before its own request; what that request brings comes after
  the handler has returned.\<close>

definition saveMessage_settles :: "string \<Rightarrow> json outcome \<Rightarrow> modal_state
    \<Rightarrow> completion \<times> modal_state" where
  "saveMessage_settles msg_id out st =
     (case out of
        Hangs \<Rightarrow> (Suspended, st)
      | Returned aiResponse \<Rightarrow>
          if truthy aiResponse
          then (Completed, st\<lparr>messages := messages st @ [aiResponse], loading_memory := True\<rparr>)
          else (Completed, st)
      | Threw e \<Rightarrow>
          (case filter_prop_ne ''id'' (Some (JStr msg_id)) (messages st) of
             None \<Rightarrow> (RenderError, st)
           | Some kept \<Rightarrow> (Completed, st\<lparr>messages := kept\<rparr>)))"

text \<open>What \<^verbatim>\<open>handleSendMessage\<close> writes between knowing \<open>chatId\<close> and awaiting
  \<open>saveMessage\<close>.\<close>

definition append_userMessage :: "string \<Rightarrow> string \<Rightarrow> string \<Rightarrow> modal_state \<Rightarrow> modal_state" where
  "append_userMessage text msg_id timestamp st =
     st\<lparr>messages := messages st @ [userMessage text msg_id timestamp], isNewChat := False\<rparr>"

text \<open>Once a new chat is selected two requests are pending, \<open>saveMessage\<close> of the handler
  and \<open>getChatById\<close> of the effect, and the event loop decides whose response is handled
  first.\<close>

datatype order = SaveFirst | LoadFirst

text \<open>
  \<^verbatim>\<open>handleSendMessage(text)\<close> up to its return, in the component: the completion of the
  handler and the state it leaves. Given are \<^verbatim>\<open>isOpen\<close>, the behaviour of the network
  for the three requests, and the order in which two pending responses are handled.

  With a chat selected, \<open>currentChatId\<close> does not change and no effect runs. Without one,
  the updates of \<open>handleCreateNewChat\<close> and the appended user message are applied in one
  render, whose effect sees the new \<open>currentChatId\<close>; when the reload it starts is handled
  first, the handler's last update works on the reloaded list. A chat id that is falsy ends
  the handler at once, and the effect, if it runs, writes what is already there.
\<close>

definition handleSendMessage :: "string \<Rightarrow> string \<Rightarrow> string \<Rightarrow> bool \<Rightarrow> order
    \<Rightarrow> net \<Rightarrow> net \<Rightarrow> net \<Rightarrow> modal_state \<Rightarrow> completion \<times> modal_state" where
  "handleSendMessage text msg_id timestamp isOpen ord n_create n_load n_save st =
     (if \<not> truthy_opt (currentChatId st)
      then (case handleCreateNewChat n_create st of
              (Completed, newChatId, st1) \<Rightarrow>
                if \<not> truthy_opt newChatId then (Completed, st1)
                else
                  (let st2 = append_userMessage text msg_id timestamp st1;
                       (loading_chat, st3) = chat_effect_begin isOpen st2;
                       saved = saveMessage newChatId text n_save
                   in if loading_chat \<and> ord = LoadFirst
                      then (case loadChat_settles (getChatById newChatId n_load) st3 of
                              (Completed, st4) \<Rightarrow> saveMessage_settles msg_id saved st4
                            | (Suspended, st4) \<Rightarrow> saveMessage_settles msg_id saved st4
                            | (RenderError, st4) \<Rightarrow> (RenderError, st4)
                            | (NotAList, st4) \<Rightarrow> (NotAList, st4))
                      else saveMessage_settles msg_id saved st3)
            | (Suspended, newChatId, st1) \<Rightarrow> (Suspended, st1)
            | (RenderError, newChatId, st1) \<Rightarrow> (RenderError, st1)
            | (NotAList, newChatId, st1) \<Rightarrow> (NotAList, st1))
      else saveMessage_settles msg_id (saveMessage (currentChatId st) text n_save)
             (append_userMessage text msg_id timestamp st))"

section \<open>Sample data\<close>

text \<open>The samples of \<^verbatim>\<open>JSON.parse\<close> used where a property is run on a concrete token.\<close>

definition sample_parse :: "string \<Rightarrow> json option" where
  "sample_parse txt =
     (if txt = ''null'' then Some JNull
      else if txt = ''{}'' then Some (JObj [])
      else if txt = [CHR ''{'', CHR 0x22, CHR ''e'', CHR ''x'', CHR ''p'', CHR 0x22, CHR '':'',
                     CHR ''1'', CHR ''}'']
        then Some (JObj [(''exp'', JNum (Fin 1))])
      else None)"

definition sample_runtime :: runtime where
  "sample_runtime =
     \<lparr>JSON_parse = sample_parse, JSON_stringify = (\<lambda>v. ''{}''),
      ToNumber_other = (\<lambda>v. NaN), ToString_other = (\<lambda>v. ''null'')\<rparr>"

text \<open>A storage that holds the credential pair and nothing else.\<close>

definition stored :: "string \<Rightarrow> string \<Rightarrow> storage" where
  "stored tok u = [''authToken'' \<mapsto> tok, ''user'' \<mapsto> u]"

section \<open>Properties of the token check\<close>

lemma get_prop_None_iff: "get_prop v k = None \<longleftrightarrow> v = JNull"
  by (cases v) simp_all

lemma atob_undefined: "atob ''undefined'' = None"
  by (simp add: atob_def strip_padding_def is_ascii_whitespace_def)

lemma decode_payload_empty: "decode_payload R [] = None"
  by (simp add: decode_payload_def payload_segment_def atob_undefined)

lemma decode_payload_nonempty: "decode_payload R token = Some p \<Longrightarrow> token \<noteq> []"
  using decode_payload_empty by fastforce

lemma remove_both:
  "removeItem (removeItem ls ''authToken'') ''user'' = ls(''authToken'' := None, ''user'' := None)"
  by (simp add: removeItem_def)

lemma atob_sample_exp: "atob ''eyJleHAiOjF9''
    = Some [CHR ''{'', CHR 0x22, CHR ''e'', CHR ''x'', CHR ''p'', CHR 0x22, CHR '':'',
            CHR ''1'', CHR ''}'']"
  by code_simp

lemma atob_sample_null: "atob ''bnVsbA=='' = Some ''null''"
  by code_simp

lemma atob_sample_empty_object: "atob ''e30='' = Some ''{}''"
  by code_simp

lemma decode_sample_exp: "decode_payload sample_runtime ''h.eyJleHAiOjF9.s''
    = Some (JObj [(''exp'', JNum (Fin 1))])"
  by (simp add: decode_payload_def payload_segment_def atob_sample_exp
      sample_runtime_def sample_parse_def)

lemma decode_sample_null: "decode_payload sample_runtime ''h.bnVsbA==.s'' = Some JNull"
  by (simp add: decode_payload_def payload_segment_def atob_sample_null
      sample_runtime_def sample_parse_def)

lemma decode_sample_empty_object: "decode_payload sample_runtime ''h.e30=.s'' = Some (JObj [])"
  by (simp add: decode_payload_def payload_segment_def atob_sample_empty_object
      sample_runtime_def sample_parse_def)

lemma atob_sample_text: "atob ''bm90IGpzb24='' = Some ''not json''"
  by code_simp

lemma atob_sample_short: "atob ''b'' = None"
  by (simp add: atob_def strip_padding_def is_ascii_whitespace_def)

lemma stored_cleared: "(stored tok u)(''authToken'' := None, ''user'' := None) = Map.empty"
  by (rule ext) (simp add: stored_def)

text \<open>
  C1. A stored token whose decoded payload has a numeric \<open>exp\<close> below the current time in
  seconds: \<open>isAuthenticated\<close> returns false and removes both \<open>authToken\<close> and \<open>user\<close> from
  the storage, leaving every other key as it was.
\<close>

theorem isAuthenticated_expired:
  assumes "getItem ls ''authToken'' = Some token"
    and "decode_payload R token = Some payload"
    and "get_prop payload ''exp'' = Some (Some (JNum e))"
    and "js_lt e (Fin currentTime)"
  shows "isAuthenticated R currentTime ls = (False, ls(''authToken'' := None, ''user'' := None))"
proof -
  have "token \<noteq> []" using assms(2) by (rule decode_payload_nonempty)
  with assms show ?thesis
    by (simp add: isAuthenticated_def remove_both)
qed

theorem isAuthenticated_expired_witness:
  "isAuthenticated sample_runtime 1700000000
     [''authToken'' \<mapsto> ''h.eyJleHAiOjF9.s'', ''user'' \<mapsto> ''{}'', ''theme'' \<mapsto> ''dark'']
   = (False, [''theme'' \<mapsto> ''dark''])"
proof -
  let ?ls = "[''authToken'' \<mapsto> ''h.eyJleHAiOjF9.s'', ''user'' \<mapsto> ''{}'', ''theme'' \<mapsto> ''dark'']"
  have 1: "getItem ?ls ''authToken'' = Some ''h.eyJleHAiOjF9.s''"
    by (simp add: getItem_def)
  have 3: "get_prop (JObj [(''exp'', JNum (Fin 1))]) ''exp'' = Some (Some (JNum (Fin 1)))"
    by simp
  have 4: "js_lt (Fin 1) (Fin 1700000000)" by simp
  have "isAuthenticated sample_runtime 1700000000 ?ls
      = (False, ?ls(''authToken'' := None, ''user'' := None))"
    using isAuthenticated_expired [OF 1 decode_sample_exp 3 4] .
  moreover have "?ls(''authToken'' := None, ''user'' := None) = [''theme'' \<mapsto> ''dark'']"
    by (rule ext) simp
  ultimately show ?thesis by simp
qed

text \<open>
  C2. A stored, non-empty token whose payload segment does not decode, because
  \<^verbatim>\<open>atob\<close> rejects it or because \<^verbatim>\<open>JSON.parse\<close> rejects the decoded text:
  \<open>isAuthenticated\<close> returns false and removes both \<open>authToken\<close> and \<open>user\<close>, as it does for
  an expired token. (An empty string under \<open>authToken\<close> counts as no token at all: the
  function returns false before any decoding.)
\<close>

theorem isAuthenticated_undecodable:
  assumes "getItem ls ''authToken'' = Some token"
    and "token \<noteq> []"
    and "atob (payload_segment token) = None
         \<or> (\<exists>txt. atob (payload_segment token) = Some txt \<and> JSON_parse R txt = None)"
  shows "isAuthenticated R currentTime ls = (False, ls(''authToken'' := None, ''user'' := None))"
proof -
  from assms(3) have "decode_payload R token = None"
    by (auto simp: decode_payload_def)
  with assms(1,2) show ?thesis
    by (simp add: isAuthenticated_def remove_both)
qed

theorem isAuthenticated_undecodable_witness:
  "isAuthenticated sample_runtime 1700000000 (stored ''a.b.c'' ''{}'') = (False, Map.empty)
   \<and> isAuthenticated sample_runtime 1700000000 (stored ''h.bm90IGpzb24=.s'' ''{}'')
       = (False, Map.empty)"
proof -
  have a: "atob (payload_segment ''a.b.c'') = None
      \<or> (\<exists>txt. atob (payload_segment ''a.b.c'') = Some txt \<and> JSON_parse sample_runtime txt = None)"
    by (simp add: payload_segment_def atob_sample_short)
  have b: "atob (payload_segment ''h.bm90IGpzb24=.s'') = None
      \<or> (\<exists>txt. atob (payload_segment ''h.bm90IGpzb24=.s'') = Some txt
             \<and> JSON_parse sample_runtime txt = None)"
    by (simp add: payload_segment_def atob_sample_text sample_runtime_def sample_parse_def)
  have "isAuthenticated sample_runtime 1700000000 (stored ''a.b.c'' ''{}'')
      = (False, (stored ''a.b.c'' ''{}'')(''authToken'' := None, ''user'' := None))"
    by (rule isAuthenticated_undecodable [OF _ _ a]) (simp_all add: getItem_def stored_def)
  moreover have "isAuthenticated sample_runtime 1700000000 (stored ''h.bm90IGpzb24=.s'' ''{}'')
      = (False, (stored ''h.bm90IGpzb24=.s'' ''{}'')(''authToken'' := None, ''user'' := None))"
    by (rule isAuthenticated_undecodable [OF _ _ b]) (simp_all add: getItem_def stored_def)
  ultimately show ?thesis
    by (simp only: stored_cleared simp_thms)
qed

lemma isAuthenticated_empty_token:
  "getItem ls ''authToken'' = Some [] \<Longrightarrow> isAuthenticated R currentTime ls = (False, ls)"
  by (simp add: isAuthenticated_def)

text \<open>
  C9, as stated, fails: the payload \<^verbatim>\<open>null\<close> is valid JSON without an \<open>exp\<close> field, yet
  reading \<^verbatim>\<open>payload.exp\<close> throws, the catch block runs, and the token is rejected and the
  storage cleared.
\<close>

theorem isAuthenticated_null_payload_counterexample:
  "decode_payload sample_runtime ''h.bnVsbA==.s'' = Some JNull
   \<and> isAuthenticated sample_runtime 1700000000 (stored ''h.bnVsbA==.s'' ''{}'')
       = (False, Map.empty)"
proof -
  have "isAuthenticated sample_runtime 1700000000 (stored ''h.bnVsbA==.s'' ''{}'')
      = (False, (stored ''h.bnVsbA==.s'' ''{}'')(''authToken'' := None, ''user'' := None))"
    by (simp add: isAuthenticated_def getItem_def stored_def decode_sample_null removeItem_def)
  then show ?thesis
    by (simp only: stored_cleared decode_sample_null simp_thms)
qed

text \<open>
  C9, amended. A stored token whose payload decodes to a JSON value other than
  \<^verbatim>\<open>null\<close> that has no \<open>exp\<close> property, or whose \<open>exp\<close> is a number not below the current
  time (equal to it included): \<open>isAuthenticated\<close> returns true and leaves the storage as it
  is.
\<close>

theorem isAuthenticated_accepts:
  assumes "getItem ls ''authToken'' = Some token"
    and "decode_payload R token = Some payload"
    and "payload \<noteq> JNull"
    and "get_prop payload ''exp'' = Some None
         \<or> (\<exists>e. get_prop payload ''exp'' = Some (Some (JNum e)) \<and> \<not> js_lt e (Fin currentTime))"
  shows "isAuthenticated R currentTime ls = (True, ls)"
proof -
  have "token \<noteq> []" using assms(2) by (rule decode_payload_nonempty)
  with assms show ?thesis
    by (auto simp: isAuthenticated_def)
qed

theorem isAuthenticated_accepts_witness:
  "isAuthenticated sample_runtime 1 (stored ''h.eyJleHAiOjF9.s'' ''{}'')
     = (True, stored ''h.eyJleHAiOjF9.s'' ''{}'')
   \<and> isAuthenticated sample_runtime 1700000000 (stored ''h.e30=.s'' ''{}'')
     = (True, stored ''h.e30=.s'' ''{}'')"
proof -
  have a: "get_prop (JObj [(''exp'', JNum (Fin 1))]) ''exp'' = Some None
      \<or> (\<exists>e. get_prop (JObj [(''exp'', JNum (Fin 1))]) ''exp'' = Some (Some (JNum e))
            \<and> \<not> js_lt e (Fin 1))"
    by simp
  have b: "get_prop (JObj []) ''exp'' = Some None
      \<or> (\<exists>e. get_prop (JObj []) ''exp'' = Some (Some (JNum e)) \<and> \<not> js_lt e (Fin 1700000000))"
    by simp
  have "isAuthenticated sample_runtime 1 (stored ''h.eyJleHAiOjF9.s'' ''{}'')
      = (True, stored ''h.eyJleHAiOjF9.s'' ''{}'')"
    by (rule isAuthenticated_accepts [OF _ decode_sample_exp _ a])
      (simp_all add: getItem_def stored_def)
  moreover have "isAuthenticated sample_runtime 1700000000 (stored ''h.e30=.s'' ''{}'')
      = (True, stored ''h.e30=.s'' ''{}'')"
    by (rule isAuthenticated_accepts [OF _ decode_sample_empty_object _ b])
      (simp_all add: getItem_def stored_def)
  ultimately show ?thesis by simp
qed

section \<open>Properties of the requests of auth-service.js\<close>

lemma get_prop_Some_other: "get_prop v k = Some x \<Longrightarrow> get_prop v k' \<noteq> None"
  by (cases v) simp_all

text \<open>
  C8. Round trip: when \<open>registerUser\<close> gets a successful response whose body carries a
  token, a non-empty string, the call returns the body and \<open>getAuthToken\<close> afterwards
  returns exactly that token.
\<close>

theorem registerUser_token_roundtrip:
  assumes "fetch n = Returned resp" and "ok resp" and "json_body resp = Some data"
    and "get_prop data ''token'' = Some (Some (JStr t))" and "t \<noteq> []"
  shows "fst (registerUser R email password username n ls) = Returned data
         \<and> getAuthToken (snd (registerUser R email password username n ls)) = Some t"
proof -
  from assms(4) obtain u where u: "get_prop data ''user'' = Some u"
    using get_prop_Some_other by blast
  with assms show ?thesis
    by (simp add: registerUser_def auth_request_def json_of_def store_credential_def
        getAuthToken_def getItem_def setItem_def)
qed

theorem registerUser_token_roundtrip_witness:
  "getAuthToken (snd (registerUser sample_runtime ''a@b.com'' ''pw'' ''ann''
      (Settles 120 (Resp (Response 201
         (Some (JObj [(''token'', JStr ''h.e30=.s''), (''user'', JObj [])])))))
      Map.empty))
   = Some ''h.e30=.s''"
proof -
  let ?data = "JObj [(''token'', JStr ''h.e30=.s''), (''user'', JObj [])]"
  let ?resp = "Response 201 (Some ?data)"
  have 1: "fetch (Settles 120 (Resp ?resp)) = Returned ?resp" by simp
  have 2: "ok ?resp" by (simp add: ok_def)
  have 3: "json_body ?resp = Some ?data" by simp
  have 4: "get_prop ?data ''token'' = Some (Some (JStr ''h.e30=.s''))" by simp
  have 5: "''h.e30=.s'' \<noteq> []" by simp
  show ?thesis
    using registerUser_token_roundtrip [OF 1 2 3 4 5] by simp
qed

text \<open>
  C10. When \<open>getUserProfile\<close> has sent its request (a truthy token is stored) and receives
  a response that is not ok and whose status is not 401, it throws the generic error and
  leaves the storage, both credential keys included, exactly as it was.
\<close>

theorem getUserProfile_other_failure:
  assumes "\<not> falsy_str (getItem ls ''authToken'')" and "fetch n = Returned resp"
    and "\<not> ok resp" and "status resp \<noteq> 401"
  shows "getUserProfile n ls = (Threw (Error ''Failed to fetch profile''), ls)"
  using assms by (simp add: getUserProfile_def)

theorem getUserProfile_other_failure_witness:
  "getUserProfile (Settles 80 (Resp (Response 500 None))) (stored ''h.e30=.s'' ''{}'')
   = (Threw (Error ''Failed to fetch profile''), stored ''h.e30=.s'' ''{}'')"
proof -
  have 1: "\<not> falsy_str (getItem (stored ''h.e30=.s'' ''{}'') ''authToken'')"
    by (simp add: falsy_str_def getItem_def stored_def)
  have 2: "fetch (Settles 80 (Resp (Response 500 None))) = Returned (Response 500 None)"
    by simp
  have 3: "\<not> ok (Response 500 None)" by (simp add: ok_def)
  have 4: "status (Response 500 None) \<noteq> 401" by simp
  show ?thesis
    using getUserProfile_other_failure [OF 1 2 3 4] .
qed

section \<open>The credential pair\<close>

lemma store_credential_step: "credential_step ls (snd (store_credential R data ls))"
proof (cases "get_prop data ''token''")
  case None
  then show ?thesis by (simp add: store_credential_def credential_step_def)
next
  case (Some tok)
  then obtain u where u: "get_prop data ''user'' = Some u"
    using get_prop_Some_other by blast
  show ?thesis
  proof (cases tok)
    case None
    with Some show ?thesis by (simp add: store_credential_def credential_step_def)
  next
    case (Some v)
    with \<open>get_prop data ''token'' = Some tok\<close> u show ?thesis
      by (auto simp: store_credential_def credential_step_def setItem_def)
  qed
qed

lemma auth_request_step: "credential_step ls (snd (auth_request R fb n ls))"
proof (cases "fetch n")
  case (Returned resp)
  show ?thesis
  proof (cases "json_of resp")
    case (Returned v)
    with \<open>fetch n = Returned resp\<close> show ?thesis
      using store_credential_step [of ls R v]
      by (simp add: auth_request_def credential_step_def)
  qed (simp_all add: auth_request_def credential_step_def \<open>fetch n = Returned resp\<close>)
qed (simp_all add: auth_request_def credential_step_def)

lemma isAuthenticated_step: "credential_step ls (snd (isAuthenticated R t ls))"
  by (simp add: isAuthenticated_def credential_step_def remove_both
      split: option.splits)

lemma getUserProfile_step: "credential_step ls (snd (getUserProfile n ls))"
  by (simp add: getUserProfile_def credential_step_def remove_both
      split: outcome.splits)

lemma logoutUser_step: "credential_step ls (logoutUser ls)"
  by (simp add: logoutUser_def credential_step_def remove_both)

lemma run_op_step: "credential_step ls (run_op R op ls)"
  by (cases op)
    (simp_all add: registerUser_def loginUser_def auth_request_step isAuthenticated_step
      getUserProfile_step logoutUser_step)

lemma credential_step_paired: "credential_step ls ls' \<Longrightarrow> paired ls \<Longrightarrow> paired ls'"
  by (auto simp: credential_step_def paired_def)

lemma run_ops_paired: "paired ls \<Longrightarrow> paired (run_ops R ops ls)"
  by (induction ops arbitrary: ls) (auto intro: credential_step_paired run_op_step)


text \<open>A run that registers, finds the token expired, logs in again and meets a 401.\<close>

lemma run_ops_sample: "run_ops sample_runtime
        [Register ''a@b.com'' ''pw'' ''ann''
           (Settles 120 (Resp (Response 201
              (Some (JObj [(''token'', JStr ''h.eyJleHAiOjF9.s''), (''user'', JObj [])]))))),
         CheckAuthenticated 1700000000,
         Login ''a@b.com'' ''pw''
           (Settles 90 (Resp (Response 200
              (Some (JObj [(''token'', JStr ''h.e30=.s''), (''user'', JObj [])]))))),
         Profile (Settles 70 (Resp (Response 401 None)))]
        Map.empty = Map.empty"
  by (simp add: registerUser_def loginUser_def auth_request_def ok_def json_of_def
      store_credential_def setItem_def stringify_stored_def isAuthenticated_def getItem_def
      decode_sample_exp removeItem_def getUserProfile_def falsy_str_def)

text \<open>
  C7. The credential pair is never partially updated. Each operation of auth-service.js
  (register, login, logout, the token check with its expiry and decode-failure branches,
  the profile request with its 401 branch) leaves the storage unchanged, writes both keys,
  or removes both keys, in one step; so from a storage that holds both keys or neither,
  one operation, and any sequence of operations, ends in a storage that holds both keys
  or neither.
\<close>

theorem credential_pair_never_partial:
  assumes "paired ls"
  shows "credential_step ls (run_op R op ls)
         \<and> paired (run_op R op ls)
         \<and> paired (run_ops R ops ls)"
  using assms run_op_step [of ls R op] credential_step_paired run_ops_paired
  by blast

theorem credential_pair_never_partial_witness:
  "paired Map.empty
   \<and> paired (run_ops sample_runtime
        [Register ''a@b.com'' ''pw'' ''ann''
           (Settles 120 (Resp (Response 201
              (Some (JObj [(''token'', JStr ''h.eyJleHAiOjF9.s''), (''user'', JObj [])]))))),
         CheckAuthenticated 1700000000,
         Login ''a@b.com'' ''pw''
           (Settles 90 (Resp (Response 200
              (Some (JObj [(''token'', JStr ''h.e30=.s''), (''user'', JObj [])]))))),
         Profile (Settles 70 (Resp (Response 401 None)))]
        Map.empty)"
proof -
  have e: "paired Map.empty" by (simp add: paired_def)
  show ?thesis
    using e credential_pair_never_partial [OF e] by blast
qed

section \<open>Properties of initializeAuth\<close>

lemma isAuthenticated_True_storage:
  "fst (isAuthenticated R t ls) \<Longrightarrow> snd (isAuthenticated R t ls) = ls"
  by (auto simp: isAuthenticated_def split: option.splits if_splits)

lemma getUserProfile_Threw_storage:
  "fst (getUserProfile n ls) = Threw e \<Longrightarrow>
     snd (getUserProfile n ls) = ls
     \<or> snd (getUserProfile n ls) = ls(''authToken'' := None, ''user'' := None)"
  by (auto simp: getUserProfile_def remove_both split: if_splits outcome.splits)

text \<open>
  C3. \<open>initializeAuth\<close> starts with a stored token that \<open>isAuthenticated\<close> accepts and a
  stored user that parses to a truthy value, and the profile request then fails, whatever
  the exception (network error, 401, any other status that is not ok, a body that is not
  JSON): the handler runs to its end, the user of the context is \<^verbatim>\<open>null\<close>, loading is
  cleared, and both credential keys are gone from the storage.
\<close>

theorem initializeAuth_verification_fails:
  assumes "fst (isAuthenticated R currentTime ls)"
    and "getStoredUser R ls = Some storedUser" and "truthy storedUser"
    and "fst (getUserProfile n ls) = Threw e"
  shows "initializeAuth R currentTime n (ls, st)
     = (Completed, ls(''authToken'' := None, ''user'' := None),
        st\<lparr>user := JNull, loading := False\<rparr>)"
proof -
  have a: "isAuthenticated R currentTime ls = (True, ls)"
    using assms(1) isAuthenticated_True_storage [OF assms(1)] by (simp add: prod_eq_iff)
  obtain ls2 where p: "getUserProfile n ls = (Threw e, ls2)"
    using assms(4) by (cases "getUserProfile n ls") simp
  have "ls2 = ls \<or> ls2 = ls(''authToken'' := None, ''user'' := None)"
    using getUserProfile_Threw_storage [OF assms(4)] p by simp
  then have c: "logoutUser ls2 = ls(''authToken'' := None, ''user'' := None)"
    by (auto simp: logoutUser_def removeItem_def)
  show ?thesis
    using assms(2,3) by (simp add: initializeAuth_def a p logout_def c)
qed

theorem initializeAuth_verification_fails_witness:
  "initializeAuth sample_runtime 1700000000 (Settles 40 NetworkError)
      (stored ''h.e30=.s'' ''{}'', initial_auth_state)
     = (Completed, Map.empty, \<lparr>user = JNull, loading = False\<rparr>)
   \<and> initializeAuth sample_runtime 1700000000 (Settles 40 (Resp (Response 401 None)))
      (stored ''h.e30=.s'' ''{}'', initial_auth_state)
     = (Completed, Map.empty, \<lparr>user = JNull, loading = False\<rparr>)
   \<and> initializeAuth sample_runtime 1700000000 (Settles 40 (Resp (Response 503 None)))
      (stored ''h.e30=.s'' ''{}'', initial_auth_state)
     = (Completed, Map.empty, \<lparr>user = JNull, loading = False\<rparr>)"
proof -
  let ?ls = "stored ''h.e30=.s'' ''{}''"
  have 1: "fst (isAuthenticated sample_runtime 1700000000 ?ls)"
    by (simp add: isAuthenticated_def getItem_def stored_def decode_sample_empty_object)
  have 2: "getStoredUser sample_runtime ?ls = Some (JObj [])"
    by (simp add: getStoredUser_def getItem_def stored_def sample_runtime_def sample_parse_def)
  have 3: "truthy (JObj [])" by simp
  have a: "fst (getUserProfile (Settles 40 NetworkError) ?ls) = Threw FetchFailed"
    by (simp add: getUserProfile_def falsy_str_def getItem_def stored_def)
  have b: "fst (getUserProfile (Settles 40 (Resp (Response 401 None))) ?ls)
      = Threw (Error ''Session expired'')"
    by (simp add: getUserProfile_def falsy_str_def getItem_def stored_def ok_def)
  have c: "fst (getUserProfile (Settles 40 (Resp (Response 503 None))) ?ls)
      = Threw (Error ''Failed to fetch profile'')"
    by (simp add: getUserProfile_def falsy_str_def getItem_def stored_def ok_def)
  show ?thesis
    using initializeAuth_verification_fails [OF 1 2 3 a, of initial_auth_state]
      initializeAuth_verification_fails [OF 1 2 3 b, of initial_auth_state]
      initializeAuth_verification_fails [OF 1 2 3 c, of initial_auth_state]
    by (simp add: stored_cleared initial_auth_state_def)
qed

section \<open>Timeouts\<close>

lemma fetch_time_irrelevant: "fetch (Settles t r) = fetch (Settles t' r)"
  by (cases r) simp_all

lemma chat_request_Never: "chat_request msg Never = Hangs"
  by (simp add: chat_request_def)

lemma chat_request_time: "chat_request msg (Settles t r) = chat_request msg (Settles t' r)"
  by (simp add: chat_request_def fetch_time_irrelevant [of t r t'])

lemma auth_request_Never: "auth_request R msg Never ls = (Hangs, ls)"
  by (simp add: auth_request_def)

lemma auth_request_time: "auth_request R msg (Settles t r) ls = auth_request R msg (Settles t' r) ls"
  by (simp add: auth_request_def fetch_time_irrelevant [of t r t'])

lemma news_request_Never:
  "news_request msg arg Never = (Threw (Error ''Request timed out. Please try again.''), True)"
  by (simp add: news_request_def fetchWithTimeout_def fetch_abortable_def abort_called_def)

lemma news_request_Settles:
  "news_request msg arg (Settles t r) =
     (if (case arg of None \<Rightarrow> 30000 | Some ms \<Rightarrow> ms) < t
      then (Threw (Error ''Request timed out. Please try again.''), True)
      else (case r of
              NetworkError \<Rightarrow> Threw FetchFailed
            | Resp resp \<Rightarrow> if ok resp then json_of resp else Threw (Error msg),
            False))"
  by (cases r)
    (simp_all add: news_request_def fetchWithTimeout_def fetch_abortable_def abort_called_def
      Let_def)

lemma news_request_default_late:
  "news_request msg None (Settles (30001 + d) r)
     = (Threw (Error ''Request timed out. Please try again.''), True)"
  by (simp add: news_request_Settles)



text \<open>
  C6, as stated, fails: the preferences and monitoring-topic operations call
  \<open>fetchWithTimeout\<close> without a timeout argument, so its default of 30000 ms applies and a
  request that has not settled by then is aborted by the client's timer.
\<close>

theorem preferences_timeout_counterexample:
  "getUserPreferences Never = (Threw (Error ''Request timed out. Please try again.''), True)
   \<and> getUserPreferences (Settles 31000 (Resp (Response 200 (Some (JObj [])))))
       = (Threw (Error ''Request timed out. Please try again.''), True)
   \<and> getUserPreferences (Settles 29000 (Resp (Response 200 (Some (JObj [])))))
       = (Returned (JObj []), False)"
  by (simp add: getUserPreferences_def news_request_Never news_request_Settles ok_def json_of_def)

text \<open>
  C6, amended. The chat operations (\<open>getAIMemory\<close>, \<open>createNewChat\<close>, \<open>getAllChats\<close>,
  \<open>getChatById\<close>, \<open>saveMessage\<close>) and the auth operations (\<open>registerUser\<close>, \<open>loginUser\<close>,
  \<open>getUserProfile\<close>) apply no client-side timeout: a request that never settles leaves
  them pending, and what they do with a response does not depend on when it arrives. The
  preferences and monitoring-topic operations are aborted by the default timer of
  \<open>fetchWithTimeout\<close> once 30000 ms have passed.
\<close>

theorem timeouts_outside_news_feeds:
  "getAIMemory Never = Hangs \<and> getAIMemory (Settles t r) = getAIMemory (Settles 0 r)
   \<and> createNewChat title Never = Hangs
   \<and> createNewChat title (Settles t r) = createNewChat title (Settles 0 r)
   \<and> getAllChats Never = Hangs \<and> getAllChats (Settles t r) = getAllChats (Settles 0 r)
   \<and> getChatById chatId Never = Hangs
   \<and> getChatById chatId (Settles t r) = getChatById chatId (Settles 0 r)
   \<and> saveMessage chatId content Never = Hangs
   \<and> saveMessage chatId content (Settles t r) = saveMessage chatId content (Settles 0 r)
   \<and> registerUser R email password username Never ls = (Hangs, ls)
   \<and> registerUser R email password username (Settles t r) ls
       = registerUser R email password username (Settles 0 r) ls
   \<and> loginUser R email password Never ls = (Hangs, ls)
   \<and> loginUser R email password (Settles t r) ls = loginUser R email password (Settles 0 r) ls
   \<and> getUserProfile Never ls
       = (if falsy_str (getItem ls ''authToken'') then Threw (Error ''No authentication token'')
          else Hangs, ls)
   \<and> getUserProfile (Settles t r) ls = getUserProfile (Settles 0 r) ls
   \<and> getUserPreferences Never
       = (Threw (Error ''Request timed out. Please try again.''), True)
   \<and> getUserPreferences (Settles (30001 + d) r)
       = (Threw (Error ''Request timed out. Please try again.''), True)
   \<and> updateUserPreferences preferences Never
       = (Threw (Error ''Request timed out. Please try again.''), True)
   \<and> updateUserPreferences preferences (Settles (30001 + d) r)
       = (Threw (Error ''Request timed out. Please try again.''), True)
   \<and> addMonitoringTopic topic Never
       = (Threw (Error ''Request timed out. Please try again.''), True)
   \<and> addMonitoringTopic topic (Settles (30001 + d) r)
       = (Threw (Error ''Request timed out. Please try again.''), True)
   \<and> removeMonitoringTopic topic Never
       = (Threw (Error ''Request timed out. Please try again.''), True)
   \<and> removeMonitoringTopic topic (Settles (30001 + d) r)
       = (Threw (Error ''Request timed out. Please try again.''), True)"
proof -
  have p: "getUserProfile Never ls
       = (if falsy_str (getItem ls ''authToken'') then Threw (Error ''No authentication token'')
          else Hangs, ls)"
    by (simp add: getUserProfile_def)
  have q: "getUserProfile (Settles t r) ls = getUserProfile (Settles 0 r) ls"
    by (simp add: getUserProfile_def fetch_time_irrelevant [of t r 0])
  show ?thesis
    unfolding getAIMemory_def createNewChat_def getAllChats_def getChatById_def saveMessage_def
      registerUser_def loginUser_def getUserPreferences_def updateUserPreferences_def
      addMonitoringTopic_def removeMonitoringTopic_def
    using p q chat_request_Never chat_request_time auth_request_Never auth_request_time
      news_request_Never news_request_default_late
    by (intro conjI) blast+
qed

section \<open>Sending a message without a selected chat\<close>

text \<open>The state in which the handler awaits \<open>saveMessage\<close> after it has created a chat.\<close>

lemma handleSendMessage_created:
  assumes "\<not> truthy_opt (currentChatId st)"
    and "createNewChat ''New Chat'' n_create = Returned newChat"
    and "get_prop newChat ''chatId'' = Some cid" and "truthy_opt cid"
    and "filter_prop_ne ''chatId'' cid (chats st) = Some others"
    and "isOpen"
  shows "handleSendMessage text msg_id timestamp isOpen ord n_create n_load n_save st =
     (let st3 = \<lparr>activeView = ''chat'', chats = newChat # others, currentChatId = cid,
                    messages = [userMessage text msg_id timestamp],
                    loading_messages = True, loading_memory = loading_memory st,
                    isNewChat = False\<rparr>;
          saved = saveMessage cid text n_save
      in if ord = LoadFirst
         then (case loadChat_settles (getChatById cid n_load) st3 of
                 (Completed, st4) \<Rightarrow> saveMessage_settles msg_id saved st4
               | (Suspended, st4) \<Rightarrow> saveMessage_settles msg_id saved st4
               | (RenderError, st4) \<Rightarrow> (RenderError, st4)
               | (NotAList, st4) \<Rightarrow> (NotAList, st4))
         else saveMessage_settles msg_id saved st3)"
  using assms
  by (cases st)
    (simp add: handleSendMessage_def handleCreateNewChat_def append_userMessage_def
      chat_effect_begin_def Let_def)




text \<open>The other order: the reload is handled first and the handler's last update works on
  the list the server gave.\<close>

lemma handleSendMessage_reload_first:
  assumes "\<not> truthy_opt (currentChatId st)"
    and "createNewChat ''New Chat'' n_create = Returned newChat"
    and "get_prop newChat ''chatId'' = Some cid" and "truthy_opt cid"
    and "filter_prop_ne ''chatId'' cid (chats st) = Some others"
    and "isOpen"
    and "getChatById cid n_load = Returned chat"
    and "get_prop chat ''messages'' = Some (Some (JArr loaded))"
    and "saveMessage cid text n_save = Returned aiResponse" and "truthy aiResponse"
  shows "handleSendMessage text msg_id timestamp isOpen LoadFirst n_create n_load n_save st =
     (Completed,
      \<lparr>activeView = ''chat'', chats = newChat # others, currentChatId = cid,
       messages = loaded @ [aiResponse], loading_messages = False, loading_memory = True,
       isNewChat = (loaded = [])\<rparr>)"
  using assms(7-10) handleSendMessage_created [OF assms(1-6), of "text" msg_id timestamp LoadFirst n_load n_save]
  by (simp add: Let_def loadChat_settles_def saveMessage_settles_def)

end
